theory Spec2Isabelle
  imports Complex_Main "HOL-Library.AList" "HOL-Library.Char_ord"
begin

section \<open>JavaScript values\<close>

text \<open>
  The persistence layer of \<^verbatim>\<open>storageUtils.js\<close> moves plain data between the
  application and \<^verbatim>\<open>localStorage\<close>. The values are those of the JSON domain, as
  \<^verbatim>\<open>JSON.parse\<close> builds them and as callers hand them to the save functions, plus
  \<^verbatim>\<open>BigInt\<close>, the one primitive that \<^verbatim>\<open>JSON.stringify\<close> refuses.

  \<^item> A number is NaN, an infinity, or a finite value given by the rational it denotes.
    The two zeros are one value (they are equal under \<^verbatim>\<open>===\<close>, both falsy and both
    print as \<^verbatim>\<open>0\<close>). Conversion from text keeps the exact decimal value: the rounding
    of the mantissa to 53 bits is left out, the overflow to an infinity and the
    underflow to zero are kept.
  \<^item> A string is a list of code units below 256.
  \<^item> An object is the list of its own properties in creation order. An array is the
    list of its elements together with the named properties that were added to it
    (empty for every array that comes out of \<^verbatim>\<open>JSON.parse\<close>).
  \<^item> \<^verbatim>\<open>undefined\<close> is not a value of this type: \<^verbatim>\<open>JSON.parse\<close> never returns it, a
    parameter with a default initialiser never holds it, and reading a missing
    property is modelled by \<open>None\<close>.
\<close>

datatype jsnum = NaN | PInf | NInf | Fin rat

datatype jsval =
    Null
  | Bool bool
  | Num jsnum
  | BigInt int
  | Str string
  | Arr "jsval list" "(string \<times> jsval) list"
  | Obj "(string \<times> jsval) list"

datatype exn = SyntaxError | TypeError | QuotaExceededError

definition is_finite :: "jsnum \<Rightarrow> bool" where
  "is_finite n = (case n of Fin r \<Rightarrow> True | _ \<Rightarrow> False)"

text \<open>The nearest double of a real value, as far as its range goes: at and above
  \<open>2^1024 - 2^970\<close> the result is an infinity, at and below \<open>2^-1075\<close> it is zero.\<close>

definition overflow_bound :: rat where
  "overflow_bound = 2 ^ 1024 - 2 ^ 970"

definition underflow_bound :: rat where
  "underflow_bound = 1 / 2 ^ 1075"

definition to_double :: "rat \<Rightarrow> jsnum" where
  "to_double r =
     (if overflow_bound \<le> r then PInf
      else if r \<le> - overflow_bound then NInf
      else if \<bar>r\<bar> \<le> underflow_bound then Fin 0
      else Fin r)"

text \<open>The two bounds written out, so that evaluation does not recompute the powers.\<close>

lemma overflow_bound_code [code]:
  "overflow_bound =
     179769313486231580793728971405303415079934132710037826936173778980444968292764750946649017977587207096330286416692887910946555547851940402630657488671505820681908902000708383676273854845817711531764475730270069855571366959622842914819860834936475292719074168444365510704342711559699508093042880177904174497792"
  by (simp add: overflow_bound_def)

lemma underflow_bound_code [code]:
  "underflow_bound =
     1 / 404804506614621236704990693437834614099113299528284236713802716054860679135990693783920767402874248990374155728633623822779617474771586953734026799881477019843034848553132722728933815484186432682479535356945490137124014966849385397236206711298319112681620113024717539104666829230461005064372655017292012526615415482186989568"
  by (simp add: underflow_bound_def)

definition negate :: "jsnum \<Rightarrow> jsnum" where
  "negate n = (case n of NaN \<Rightarrow> NaN | PInf \<Rightarrow> NInf | NInf \<Rightarrow> PInf | Fin r \<Rightarrow> Fin (- r))"

subsection \<open>Digits\<close>

definition is_digit :: "char \<Rightarrow> bool" where
  "is_digit c = (CHR ''0'' \<le> c \<and> c \<le> CHR ''9'')"

definition digit_val :: "char \<Rightarrow> int" where
  "digit_val c = of_char c - 48"

text \<open>The value of a run of decimal digits, most significant first.\<close>

definition digits_val :: "string \<Rightarrow> int" where
  "digits_val ds = foldl (\<lambda>acc c. 10 * acc + digit_val c) 0 ds"

text \<open>The decimal digits of a number that is not negative.\<close>

function digits_of :: "int \<Rightarrow> string" where
  "digits_of n =
     (if n < 10 then [char_of (48 + n)]
      else digits_of (n div 10) @ [char_of (48 + n mod 10)])"
  by pat_completeness auto
termination
  by (relation "measure nat") auto

declare digits_of.simps [simp del]

definition string_of_int :: "int \<Rightarrow> string" where
  "string_of_int i = (if i < 0 then ''-'' @ digits_of (- i) else digits_of i)"

text \<open>How many times ten divides a positive number.\<close>

function trailing_zeros :: "int \<Rightarrow> nat" where
  "trailing_zeros m =
     (if m \<le> 0 \<or> m mod 10 \<noteq> 0 then 0 else Suc (trailing_zeros (m div 10)))"
  by pat_completeness auto
termination
  by (relation "measure nat") auto

declare trailing_zeros.simps [simp del]

text \<open>The number of binary digits of a positive number.\<close>

function bit_length :: "int \<Rightarrow> nat" where
  "bit_length n = (if n \<le> 0 then 0 else Suc (bit_length (n div 2)))"
  by pat_completeness auto
termination
  by (relation "measure nat") auto

declare bit_length.simps [simp del]

text \<open>The least number of decimal places after which \<open>r\<close> is a whole number, searched
  up to the given bound. A value with a finite decimal expansion, as every double has,
  needs no more places than its denominator has binary digits, so with that bound the
  search always arrives.\<close>

fun dec_places :: "nat \<Rightarrow> rat \<Rightarrow> nat" where
  "dec_places 0 r = 0"
| "dec_places (Suc f) r = (if of_int \<lfloor>r\<rfloor> = r then 0 else Suc (dec_places f (r * 10)))"

subsection \<open>\<^verbatim>\<open>Number::toString\<close>\<close>

text \<open>
  ECMAScript writes a positive finite number from its decimal digits \<open>s\<close> (\<open>k\<close> of them,
  no trailing zero) and the position \<open>n\<close> of the decimal point, the value being
  \<open>s * 10^(n - k)\<close>: plain digits when \<open>k \<le> n \<le> 21\<close>, a decimal point inside when
  \<open>0 < n \<le> 21\<close>, leading zeros when \<open>-6 < n \<le> 0\<close>, and exponent notation otherwise.
\<close>

definition pos_toString :: "rat \<Rightarrow> string" where
  "pos_toString r =
     (let d = dec_places (bit_length (snd (quotient_of r))) r;
          m = \<lfloor>r * of_int (10 ^ d)\<rfloor>;
          z = trailing_zeros m;
          ds = digits_of (m div 10 ^ z);
          k = int (length ds);
          n = k + int z - int d
      in if k \<le> n \<and> n \<le> 21 then ds @ replicate (nat (n - k)) CHR ''0''
         else if 0 < n \<and> n \<le> 21 then take (nat n) ds @ ''.'' @ drop (nat n) ds
         else if - 6 < n \<and> n \<le> 0 then ''0.'' @ replicate (nat (- n)) CHR ''0'' @ ds
         else let e = n - 1;
                  es = (if e < 0 then ''-'' else ''+'') @ digits_of \<bar>e\<bar>
              in if k = 1 then ds @ ''e'' @ es
                 else take 1 ds @ ''.'' @ drop 1 ds @ ''e'' @ es)"

definition Number_toString :: "jsnum \<Rightarrow> string" where
  "Number_toString n =
     (case n of
        NaN \<Rightarrow> ''NaN''
      | PInf \<Rightarrow> ''Infinity''
      | NInf \<Rightarrow> ''-Infinity''
      | Fin r \<Rightarrow> (if r = 0 then ''0''
                  else if r < 0 then ''-'' @ pos_toString (- r)
                  else pos_toString r))"

subsection \<open>\<^verbatim>\<open>StringToNumber\<close>: what \<^verbatim>\<open>Number(s)\<close> does with a string\<close>

text \<open>White space and line terminators of ECMAScript that fit in a code unit below
  256: TAB, LF, VT, FF, CR, SP and NBSP.\<close>

definition is_str_ws :: "char \<Rightarrow> bool" where
  "is_str_ws c = (c \<in> {CHR 0x09, CHR 0x0A, CHR 0x0B, CHR 0x0C, CHR 0x0D, CHR 0x20, CHR 0xA0})"

definition trim :: "string \<Rightarrow> string" where
  "trim s = rev (dropWhile is_str_ws (rev (dropWhile is_str_ws s)))"

definition radix_digit :: "char \<Rightarrow> int option" where
  "radix_digit c =
     (if is_digit c then Some (digit_val c)
      else if CHR ''a'' \<le> c \<and> c \<le> CHR ''f'' then Some (of_char c - 87)
      else if CHR ''A'' \<le> c \<and> c \<le> CHR ''F'' then Some (of_char c - 55)
      else None)"

text \<open>\<^verbatim>\<open>0x\<close>, \<^verbatim>\<open>0o\<close> and \<^verbatim>\<open>0b\<close> literals: at least one digit, every digit below the radix.\<close>

definition radix_literal :: "int \<Rightarrow> string \<Rightarrow> jsnum" where
  "radix_literal b ds =
     (if ds \<noteq> [] \<and> list_all (\<lambda>c. case radix_digit c of None \<Rightarrow> False | Some v \<Rightarrow> v < b) ds
      then to_double (of_int (foldl (\<lambda>acc c. b * acc + the (radix_digit c)) 0 ds))
      else NaN)"

text \<open>The exponent part after the mantissa: nothing, or \<^verbatim>\<open>e\<close>, a sign and digits.
  \<open>None\<close> when the text is not an exponent part.\<close>

definition exponent_part :: "string \<Rightarrow> int option" where
  "exponent_part s =
     (case s of
        [] \<Rightarrow> Some 0
      | c # t \<Rightarrow>
          if c = CHR ''e'' \<or> c = CHR ''E'' then
            (case t of
               [] \<Rightarrow> None
             | sg # ds \<Rightarrow>
                 if sg = CHR ''+'' then
                   (if ds \<noteq> [] \<and> list_all is_digit ds then Some (digits_val ds) else None)
                 else if sg = CHR ''-'' then
                   (if ds \<noteq> [] \<and> list_all is_digit ds then Some (- digits_val ds) else None)
                 else if list_all is_digit t then Some (digits_val t)
                 else None)
          else None)"

definition scale10 :: "rat \<Rightarrow> int \<Rightarrow> rat" where
  "scale10 r e = (if 0 \<le> e then r * of_int (10 ^ nat e) else r / of_int (10 ^ nat (- e)))"

text \<open>\<^verbatim>\<open>StrUnsignedDecimalLiteral\<close> without \<^verbatim>\<open>Infinity\<close>: digits with an optional
  fraction, or a fraction alone, then an optional exponent. \<open>None\<close> is a syntax error.\<close>

definition unsigned_decimal :: "string \<Rightarrow> rat option" where
  "unsigned_decimal s =
     (let ip = takeWhile is_digit s; r1 = dropWhile is_digit s
      in case r1 of
           CHR ''.'' # r2 \<Rightarrow>
             (let fp = takeWhile is_digit r2; r3 = dropWhile is_digit r2
              in if ip = [] \<and> fp = [] then None
                 else (case exponent_part r3 of
                         None \<Rightarrow> None
                       | Some e \<Rightarrow>
                           Some (scale10 (of_int (digits_val ip)
                                   + of_int (digits_val fp) / of_int (10 ^ length fp)) e)))
         | _ \<Rightarrow>
             if ip = [] then None
             else (case exponent_part r1 of
                     None \<Rightarrow> None
                   | Some e \<Rightarrow> Some (scale10 (of_int (digits_val ip)) e)))"

definition str_unsigned :: "string \<Rightarrow> jsnum" where
  "str_unsigned s =
     (if s = ''Infinity'' then PInf
      else case unsigned_decimal s of None \<Rightarrow> NaN | Some r \<Rightarrow> to_double r)"

definition StringToNumber :: "string \<Rightarrow> jsnum" where
  "StringToNumber s =
     (let t = trim s
      in case t of
           [] \<Rightarrow> Fin 0
         | c # u \<Rightarrow>
             if c = CHR ''0'' \<and> u \<noteq> [] \<and> hd u \<in> {CHR ''x'', CHR ''X''} then radix_literal 16 (tl u)
             else if c = CHR ''0'' \<and> u \<noteq> [] \<and> hd u \<in> {CHR ''o'', CHR ''O''} then radix_literal 8 (tl u)
             else if c = CHR ''0'' \<and> u \<noteq> [] \<and> hd u \<in> {CHR ''b'', CHR ''B''} then radix_literal 2 (tl u)
             else if c = CHR ''+'' then str_unsigned u
             else if c = CHR ''-'' then negate (str_unsigned u)
             else str_unsigned t)"

section \<open>Conversions between values\<close>

text \<open>\<^verbatim>\<open>ToBoolean\<close>: the falsy values are \<^verbatim>\<open>null\<close>, \<^verbatim>\<open>false\<close>, zero, NaN, \<^verbatim>\<open>0n\<close> and the
  empty string.\<close>

fun ToBoolean :: "jsval \<Rightarrow> bool" where
  "ToBoolean Null = False"
| "ToBoolean (Bool b) = b"
| "ToBoolean (Num n) = (n \<noteq> NaN \<and> n \<noteq> Fin 0)"
| "ToBoolean (BigInt i) = (i \<noteq> 0)"
| "ToBoolean (Str s) = (s \<noteq> [])"
| "ToBoolean (Arr xs ps) = True"
| "ToBoolean (Obj ps) = True"

text \<open>The own named properties of a value. A primitive has none.\<close>

fun own_props :: "jsval \<Rightarrow> (string \<times> jsval) list" where
  "own_props (Obj ps) = ps"
| "own_props (Arr xs ps) = ps"
| "own_props v = []"

text \<open>
  \<^verbatim>\<open>String(v)\<close>. An object or array goes through \<^verbatim>\<open>OrdinaryToPrimitive\<close>, which calls
  the \<^verbatim>\<open>toString\<close> and \<^verbatim>\<open>valueOf\<close> it finds on the value. The values here hold data only,
  so an own property of that name is never callable and hides the inherited method:
  \<^item> with an own \<^verbatim>\<open>toString\<close> no method yields a primitive (the inherited
    \<^verbatim>\<open>valueOf\<close> returns the object itself) and the conversion throws a TypeError;
  \<^item> otherwise a plain object gives \<^verbatim>\<open>[object Object]\<close>, and an array joins its
    elements with commas, \<^verbatim>\<open>null\<close> giving the empty string, unless an own \<^verbatim>\<open>join\<close>
    hides the inherited one, in which case it gives \<^verbatim>\<open>[object Array]\<close>.
  The hint makes no difference on these values, so \<^verbatim>\<open>Number(v)\<close> converts the same
  string.
\<close>

fun ToString :: "jsval \<Rightarrow> exn + string"
  and join_elements :: "jsval list \<Rightarrow> exn + string" where
  "ToString Null = Inr ''null''"
| "ToString (Bool b) = Inr (if b then ''true'' else ''false'')"
| "ToString (Num n) = Inr (Number_toString n)"
| "ToString (BigInt i) = Inr (string_of_int i)"
| "ToString (Str s) = Inr s"
| "ToString (Arr xs ps) =
     (if map_of ps ''toString'' \<noteq> None then Inl TypeError
      else if map_of ps ''join'' \<noteq> None then Inr ''[object Array]''
      else join_elements xs)"
| "ToString (Obj ps) =
     (if map_of ps ''toString'' \<noteq> None then Inl TypeError else Inr ''[object Object]'')"
| "join_elements [] = Inr []"
| "join_elements (x # xs) =
     (case (if x = Null then Inr [] else ToString x) of
        Inl e \<Rightarrow> Inl e
      | Inr s \<Rightarrow>
          if xs = [] then Inr s
          else (case join_elements xs of Inl e \<Rightarrow> Inl e | Inr t \<Rightarrow> Inr (s @ '','' @ t)))"

text \<open>\<^verbatim>\<open>Number(v)\<close>.\<close>

definition ToNumber :: "jsval \<Rightarrow> exn + jsnum" where
  "ToNumber v =
     (case v of
        Null \<Rightarrow> Inr (Fin 0)
      | Bool b \<Rightarrow> Inr (Fin (if b then 1 else 0))
      | Num n \<Rightarrow> Inr n
      | BigInt i \<Rightarrow> Inr (to_double (of_int i))
      | Str s \<Rightarrow> Inr (StringToNumber s)
      | _ \<Rightarrow> (case ToString v of Inl e \<Rightarrow> Inl e | Inr s \<Rightarrow> Inr (StringToNumber s)))"

section \<open>JSON\<close>

subsection \<open>\<^verbatim>\<open>JSON.stringify\<close>\<close>

definition hex_digit :: "int \<Rightarrow> char" where
  "hex_digit n = (if n < 10 then char_of (48 + n) else char_of (87 + n))"

text \<open>\<^verbatim>\<open>QuoteJSONString\<close>: the quote and the backslash are escaped, the control
  characters get their short escape or \<^verbatim>\<open>\u00xx\<close>, every other code unit stands for
  itself.\<close>

definition quote_char :: "char \<Rightarrow> string" where
  "quote_char c =
     (if c = CHR 0x22 then [CHR 0x5C, CHR 0x22]
      else if c = CHR 0x5C then [CHR 0x5C, CHR 0x5C]
      else if c = CHR 0x08 then [CHR 0x5C, CHR ''b'']
      else if c = CHR 0x0C then [CHR 0x5C, CHR ''f'']
      else if c = CHR 0x0A then [CHR 0x5C, CHR ''n'']
      else if c = CHR 0x0D then [CHR 0x5C, CHR ''r'']
      else if c = CHR 0x09 then [CHR 0x5C, CHR ''t'']
      else if of_char c < (32::int)
        then [CHR 0x5C, CHR ''u'', CHR ''0'', CHR ''0'',
              hex_digit (of_char c div 16), hex_digit (of_char c mod 16)]
      else [c])"

definition QuoteJSONString :: "string \<Rightarrow> string" where
  "QuoteJSONString s = [CHR 0x22] @ concat (map quote_char s) @ [CHR 0x22]"

text \<open>
  \<^verbatim>\<open>JSON.stringify(value)\<close> with no replacer and no indentation. A number that is not
  finite is written \<^verbatim>\<open>null\<close>; a BigInt, at any depth, throws a TypeError; an array
  writes its elements only. No value of this type carries a callable \<^verbatim>\<open>toJSON\<close>.
\<close>

fun JSON_stringify :: "jsval \<Rightarrow> exn + string"
  and stringify_elements :: "jsval list \<Rightarrow> exn + string"
  and stringify_members :: "(string \<times> jsval) list \<Rightarrow> exn + string" where
  "JSON_stringify Null = Inr ''null''"
| "JSON_stringify (Bool b) = Inr (if b then ''true'' else ''false'')"
| "JSON_stringify (Num n) = Inr (if is_finite n then Number_toString n else ''null'')"
| "JSON_stringify (BigInt i) = Inl TypeError"
| "JSON_stringify (Str s) = Inr (QuoteJSONString s)"
| "JSON_stringify (Arr xs ps) =
     (case stringify_elements xs of Inl e \<Rightarrow> Inl e | Inr t \<Rightarrow> Inr (''['' @ t @ '']''))"
| "JSON_stringify (Obj ps) =
     (case stringify_members ps of Inl e \<Rightarrow> Inl e | Inr t \<Rightarrow> Inr (''{'' @ t @ ''}''))"
| "stringify_elements [] = Inr []"
| "stringify_elements (x # xs) =
     (case JSON_stringify x of
        Inl e \<Rightarrow> Inl e
      | Inr s \<Rightarrow>
          if xs = [] then Inr s
          else (case stringify_elements xs of Inl e \<Rightarrow> Inl e | Inr t \<Rightarrow> Inr (s @ '','' @ t)))"
| "stringify_members [] = Inr []"
| "stringify_members (kv # ps) =
     (case JSON_stringify (snd kv) of
        Inl e \<Rightarrow> Inl e
      | Inr s \<Rightarrow>
          if ps = [] then Inr (QuoteJSONString (fst kv) @ '':'' @ s)
          else (case stringify_members ps of
                  Inl e \<Rightarrow> Inl e
                | Inr t \<Rightarrow> Inr (QuoteJSONString (fst kv) @ '':'' @ s @ '','' @ t)))"

subsection \<open>\<^verbatim>\<open>JSON.parse\<close>: the tokens\<close>

datatype token =
    TLBrace | TRBrace | TLBracket | TRBracket | TColon | TComma
  | TString string | TNumber jsnum | TTrue | TFalse | TNull

definition is_json_ws :: "char \<Rightarrow> bool" where
  "is_json_ws c = (c \<in> {CHR 0x09, CHR 0x0A, CHR 0x0D, CHR 0x20})"

definition unescape :: "char \<Rightarrow> char option" where
  "unescape e =
     (if e = CHR 0x22 then Some (CHR 0x22)
      else if e = CHR 0x5C then Some (CHR 0x5C)
      else if e = CHR ''/'' then Some (CHR ''/'')
      else if e = CHR ''b'' then Some (CHR 0x08)
      else if e = CHR ''f'' then Some (CHR 0x0C)
      else if e = CHR ''n'' then Some (CHR 0x0A)
      else if e = CHR ''r'' then Some (CHR 0x0D)
      else if e = CHR ''t'' then Some (CHR 0x09)
      else None)"

definition hex4 :: "string \<Rightarrow> int option" where
  "hex4 hs =
     (if list_all (\<lambda>h. radix_digit h \<noteq> None) hs
      then Some (foldl (\<lambda>acc h. 16 * acc + the (radix_digit h)) 0 hs)
      else None)"

text \<open>
  The rest of a string token after its opening quote: the characters up to the closing
  quote, and the text behind it. A raw control character, an unknown escape and a
  missing closing quote are syntax errors. The strings of this model hold code units
  below 256, so an escape \<^verbatim>\<open>\uXXXX\<close> above \<^verbatim>\<open>\u00ff\<close> names a character the model
  does not have; the model's parser refuses such a text.
\<close>

fun lex_string :: "string \<Rightarrow> (string \<times> string) option" where
  "lex_string [] = None"
| "lex_string (c # cs) =
     (if c = CHR 0x22 then Some ([], cs)
      else if c = CHR 0x5C then
        (case cs of
           [] \<Rightarrow> None
         | e # r \<Rightarrow>
             if e = CHR ''u'' then
               (case r of
                  h1 # h2 # h3 # h4 # r' \<Rightarrow>
                    (case hex4 [h1, h2, h3, h4] of
                       None \<Rightarrow> None
                     | Some n \<Rightarrow>
                         if n < 256
                         then map_option (\<lambda>(s, t). (char_of n # s, t)) (lex_string r')
                         else None)
                | _ \<Rightarrow> None)
             else (case unescape e of
                     None \<Rightarrow> None
                   | Some x \<Rightarrow> map_option (\<lambda>(s, t). (x # s, t)) (lex_string r)))
      else if of_char c < (32::int) then None
      else map_option (\<lambda>(s, t). (c # s, t)) (lex_string cs))"

text \<open>A JSON number: an optional minus, \<^verbatim>\<open>0\<close> or digits without a leading zero, an
  optional fraction with at least one digit, an optional exponent.\<close>

definition json_number :: "string \<Rightarrow> jsnum option" where
  "json_number s =
     (let neg = (s \<noteq> [] \<and> hd s = CHR ''-'');
          u = (if neg then tl s else s);
          ip = takeWhile is_digit u;
          r1 = dropWhile is_digit u
      in if ip = [] \<or> (1 < length ip \<and> hd ip = CHR ''0'') then None
         else
           (case r1 of
              CHR ''.'' # r2 \<Rightarrow>
                (let fp = takeWhile is_digit r2; r3 = dropWhile is_digit r2
                 in if fp = [] then None
                    else (case exponent_part r3 of
                            None \<Rightarrow> None
                          | Some e \<Rightarrow>
                              (let m = scale10 (of_int (digits_val ip)
                                         + of_int (digits_val fp) / of_int (10 ^ length fp)) e
                               in Some (to_double (if neg then - m else m)))))
            | _ \<Rightarrow>
                (case exponent_part r1 of
                   None \<Rightarrow> None
                 | Some e \<Rightarrow>
                     (let m = scale10 (of_int (digits_val ip)) e
                      in Some (to_double (if neg then - m else m))))))"

definition is_number_char :: "char \<Rightarrow> bool" where
  "is_number_char c = (is_digit c \<or> c \<in> {CHR ''-'', CHR ''+'', CHR ''.'', CHR ''e'', CHR ''E''})"

lemma lex_string_shorter:
  "lex_string cs = Some (s, rest) \<Longrightarrow> length rest < length cs"
proof (induction cs arbitrary: s rest rule: lex_string.induct)
  case 1
  then show ?case by simp
next
  case (2 c cs)
  then show ?case
    by (fastforce split: if_splits list.splits option.splits)
qed

text \<open>
  The tokens of a text, or \<open>None\<close> for a text with a character that starts no token.
  A number token is the longest run of number characters; no such character can
  follow a number in a JSON text, so the run is the number or the text is wrong.
\<close>

function lex :: "string \<Rightarrow> token list option" where
  "lex [] = Some []"
| "lex (c # cs) =
     (if is_json_ws c then lex cs
      else if c = CHR ''{'' then map_option (Cons TLBrace) (lex cs)
      else if c = CHR ''}'' then map_option (Cons TRBrace) (lex cs)
      else if c = CHR ''['' then map_option (Cons TLBracket) (lex cs)
      else if c = CHR '']'' then map_option (Cons TRBracket) (lex cs)
      else if c = CHR '':'' then map_option (Cons TColon) (lex cs)
      else if c = CHR '','' then map_option (Cons TComma) (lex cs)
      else if c = CHR 0x22 then
        (case lex_string cs of
           None \<Rightarrow> None
         | Some (s, rest) \<Rightarrow> map_option (Cons (TString s)) (lex rest))
      else if c = CHR ''t'' then
        (if take 3 cs = ''rue'' then map_option (Cons TTrue) (lex (drop 3 cs)) else None)
      else if c = CHR ''f'' then
        (if take 4 cs = ''alse'' then map_option (Cons TFalse) (lex (drop 4 cs)) else None)
      else if c = CHR ''n'' then
        (if take 3 cs = ''ull'' then map_option (Cons TNull) (lex (drop 3 cs)) else None)
      else if c = CHR ''-'' \<or> is_digit c then
        (case json_number (c # takeWhile is_number_char cs) of
           None \<Rightarrow> None
         | Some n \<Rightarrow> map_option (Cons (TNumber n)) (lex (dropWhile is_number_char cs)))
      else None)"
  by pat_completeness auto
termination
proof (relation "measure length")
  show "wf (measure length)" by simp
next
  fix c cs x2 s rest
  assume "lex_string cs = Some x2" "(s, rest) = x2"
  then show "(rest, c # cs) \<in> measure length"
    using lex_string_shorter [of cs s rest] by simp
next
  fix c cs x2
  show "(dropWhile is_number_char cs, c # cs) \<in> measure length"
    by (simp add: le_imp_less_Suc length_dropWhile_le)
qed simp_all

subsection \<open>\<^verbatim>\<open>JSON.parse\<close>: the grammar\<close>

text \<open>
  The grammar is read in one pass over the tokens by a pushdown automaton. A frame of
  the stack is an array or an object under construction whose next value is being
  read: the elements so far, or the members so far and the key of the value to come.
\<close>

datatype frame =
    InArray "jsval list"
  | InObject "(string \<times> jsval) list" string

datatype pstate =
    ExpectValue "frame list"
  | ArrayOpened "frame list"
  | AfterElement "jsval list" "frame list"
  | ObjectOpened "frame list"
  | ExpectKey "(string \<times> jsval) list" "frame list"
  | ExpectColon "(string \<times> jsval) list" string "frame list"
  | AfterMember "(string \<times> jsval) list" "frame list"
  | Done jsval

text \<open>A finished value goes into the innermost open container, or is the result. A
  member whose key is already there replaces the earlier value in its place, as
  \<^verbatim>\<open>CreateDataProperty\<close> does.\<close>

fun complete :: "jsval \<Rightarrow> frame list \<Rightarrow> pstate" where
  "complete v [] = Done v"
| "complete v (InArray es # stk) = AfterElement (es @ [v]) stk"
| "complete v (InObject ms k # stk) = AfterMember (AList.update k v ms) stk"

text \<open>The start of a value: a scalar is a value at once, a bracket opens a container.\<close>

fun begin_value :: "token \<Rightarrow> frame list \<Rightarrow> pstate option" where
  "begin_value TNull stk = Some (complete Null stk)"
| "begin_value TTrue stk = Some (complete (Bool True) stk)"
| "begin_value TFalse stk = Some (complete (Bool False) stk)"
| "begin_value (TNumber n) stk = Some (complete (Num n) stk)"
| "begin_value (TString s) stk = Some (complete (Str s) stk)"
| "begin_value TLBracket stk = Some (ArrayOpened stk)"
| "begin_value TLBrace stk = Some (ObjectOpened stk)"
| "begin_value t stk = None"

fun pstep :: "pstate \<Rightarrow> token \<Rightarrow> pstate option" where
  "pstep (ExpectValue stk) t = begin_value t stk"
| "pstep (ArrayOpened stk) t =
     (if t = TRBracket then Some (complete (Arr [] []) stk)
      else begin_value t (InArray [] # stk))"
| "pstep (AfterElement es stk) t =
     (if t = TComma then Some (ExpectValue (InArray es # stk))
      else if t = TRBracket then Some (complete (Arr es []) stk)
      else None)"
| "pstep (ObjectOpened stk) t =
     (case t of
        TRBrace \<Rightarrow> Some (complete (Obj []) stk)
      | TString k \<Rightarrow> Some (ExpectColon [] k stk)
      | _ \<Rightarrow> None)"
| "pstep (ExpectKey ms stk) t =
     (case t of TString k \<Rightarrow> Some (ExpectColon ms k stk) | _ \<Rightarrow> None)"
| "pstep (ExpectColon ms k stk) t =
     (if t = TColon then Some (ExpectValue (InObject ms k # stk)) else None)"
| "pstep (AfterMember ms stk) t =
     (if t = TComma then Some (ExpectKey ms stk)
      else if t = TRBrace then Some (complete (Obj ms) stk)
      else None)"
| "pstep (Done v) t = None"

fun prun :: "pstate \<Rightarrow> token list \<Rightarrow> pstate option" where
  "prun st [] = Some st"
| "prun st (t # ts) = (case pstep st t of None \<Rightarrow> None | Some st' \<Rightarrow> prun st' ts)"

text \<open>\<^verbatim>\<open>JSON.parse(text)\<close> with no reviver: the value of the text, or a SyntaxError.\<close>

definition JSON_parse :: "string \<Rightarrow> exn + jsval" where
  "JSON_parse text =
     (case lex text of
        None \<Rightarrow> Inl SyntaxError
      | Some ts \<Rightarrow>
          (case prun (ExpectValue []) ts of
             Some (Done v) \<Rightarrow> Inr v
           | _ \<Rightarrow> Inl SyntaxError))"

section \<open>The backend: \<^verbatim>\<open>localStorage\<close> and the console\<close>

text \<open>
  The store maps keys to strings. \<^verbatim>\<open>setItem\<close> either stores the value or throws and
  leaves the store as it was; which of the two is the backend's decision (its quota),
  taken from what is stored, the key and the value: the field \<open>accepts\<close>. The console
  keeps what \<^verbatim>\<open>console.error\<close> was given: the message and the error.
\<close>

record backend =
  items :: "string \<rightharpoonup> string"
  accepts :: "(string \<rightharpoonup> string) \<Rightarrow> string \<Rightarrow> string \<Rightarrow> bool"
  console :: "(string \<times> exn) list"

definition getItem :: "backend \<Rightarrow> string \<Rightarrow> string option" where
  "getItem b key = items b key"

definition setItem :: "backend \<Rightarrow> string \<Rightarrow> string \<Rightarrow> exn + backend" where
  "setItem b key v =
     (if accepts b (items b) key v then Inr (b\<lparr>items := (items b)(key \<mapsto> v)\<rparr>)
      else Inl QuotaExceededError)"

definition console_error :: "backend \<Rightarrow> string \<Rightarrow> exn \<Rightarrow> backend" where
  "console_error b msg e = b\<lparr>console := console b @ [(msg, e)]\<rparr>"

text \<open>\<^verbatim>\<open>!raw\<close> for what \<^verbatim>\<open>getItem\<close> returns: \<^verbatim>\<open>null\<close> and the empty string are falsy.\<close>

definition not_raw :: "string option \<Rightarrow> bool" where
  "not_raw raw = (case raw of None \<Rightarrow> True | Some s \<Rightarrow> s = [])"

section \<open>\<^verbatim>\<open>storageUtils.js\<close>\<close>

text \<open>
  A function returns what it returned or threw, and the backend it left. The
  parameters are the values the body sees, after the default initialisers:
  \<open>seedValue = Null\<close> is the call without a seed.
\<close>

type_synonym 'a outcome = "(exn + 'a) \<times> backend"

subsection \<open>\<^verbatim>\<open>loadFromStorage\<close> and \<^verbatim>\<open>saveToStorage\<close>\<close>

text \<open>The messages of the two \<^verbatim>\<open>catch\<close> blocks, as the template literals build them.\<close>

definition load_error_message :: "string \<Rightarrow> string" where
  "load_error_message key = ''Error loading from localStorage (key: '' @ key @ ''):''"

definition save_error_message :: "string \<Rightarrow> string" where
  "save_error_message key = ''Error saving to localStorage (key: '' @ key @ ''):''"

text \<open>The \<^verbatim>\<open>try\<close> block of \<^verbatim>\<open>loadFromStorage\<close>.\<close>

definition loadFromStorage_try :: "backend \<Rightarrow> string \<Rightarrow> jsval \<Rightarrow> jsval \<Rightarrow> jsval outcome" where
  "loadFromStorage_try b key defaultValue seedValue =
     (let raw = getItem b key
      in if not_raw raw then
           (if seedValue \<noteq> Null then
              (case JSON_stringify seedValue of
                 Inl e \<Rightarrow> (Inl e, b)
               | Inr s \<Rightarrow>
                   (case setItem b key s of
                      Inl e \<Rightarrow> (Inl e, b)
                    | Inr b' \<Rightarrow> (Inr seedValue, b')))
            else (Inr defaultValue, b))
         else
           (case JSON_parse (the raw) of
              Inl e \<Rightarrow> (Inl e, b)
            | Inr parsed \<Rightarrow> (Inr (if parsed \<noteq> Null then parsed else defaultValue), b)))"

text \<open>The whole function: what the block throws is logged and the default returned.\<close>

definition loadFromStorage :: "backend \<Rightarrow> string \<Rightarrow> jsval \<Rightarrow> jsval \<Rightarrow> jsval outcome" where
  "loadFromStorage b key defaultValue seedValue =
     (case loadFromStorage_try b key defaultValue seedValue of
        (Inr v, b') \<Rightarrow> (Inr v, b')
      | (Inl error, b') \<Rightarrow>
          (Inr defaultValue, console_error b' (load_error_message key) error))"

definition saveToStorage :: "backend \<Rightarrow> string \<Rightarrow> jsval \<Rightarrow> bool outcome" where
  "saveToStorage b key v =
     (case (case JSON_stringify v of Inl e \<Rightarrow> Inl e | Inr s \<Rightarrow> setItem b key s) of
        Inr b' \<Rightarrow> (Inr True, b')
      | Inl error \<Rightarrow>
          (Inr False, console_error b (save_error_message key) error))"

subsection \<open>Rosters\<close>

definition KEY_BUILDINGS_DB :: string where
  "KEY_BUILDINGS_DB = ''pu_buildings_db_v1''"

definition loadBuildingsDB :: "backend \<Rightarrow> jsval outcome" where
  "loadBuildingsDB b = loadFromStorage b KEY_BUILDINGS_DB (Arr [] []) Null"

definition saveBuildingsDB :: "backend \<Rightarrow> jsval \<Rightarrow> bool outcome" where
  "saveBuildingsDB b rows = saveToStorage b KEY_BUILDINGS_DB rows"

definition KEY_USERS_DB :: string where
  "KEY_USERS_DB = ''PORTAL_USERS_DB''"

definition loadUsersDB :: "backend \<Rightarrow> jsval outcome" where
  "loadUsersDB b = loadFromStorage b KEY_USERS_DB (Arr [] []) Null"

definition saveUsersDB :: "backend \<Rightarrow> jsval \<Rightarrow> bool outcome" where
  "saveUsersDB b rows = saveToStorage b KEY_USERS_DB (if ToBoolean rows then rows else Arr [] [])"

subsection \<open>Dues\<close>

definition kDues :: "string \<Rightarrow> string" where
  "kDues bid = ''pu_dues_v1__'' @ bid"

text \<open>What \<^verbatim>\<open>loadDues\<close> reads from \<^verbatim>\<open>new Date()\<close>: the full year and the month index,
  which \<^verbatim>\<open>getMonth\<close> counts from zero.\<close>

record date =
  getFullYear :: int
  getMonth :: nat

definition padStart2 :: "string \<Rightarrow> string" where
  "padStart2 s = replicate (2 - length s) CHR ''0'' @ s"

definition current_startMonth :: "date \<Rightarrow> string" where
  "current_startMonth now =
     Number_toString (Fin (of_int (getFullYear now))) @ ''-''
       @ padStart2 (Number_toString (Fin (of_nat (getMonth now + 1))))"

definition defaultSeed :: "string \<Rightarrow> jsval" where
  "defaultSeed startMonth =
     Obj [(''monthlyFee'', Num (Fin 2000)), (''startMonth'', Str startMonth),
          (''paymentsByUser'', Obj [])]"

text \<open>
  Reading and writing a named property, for names that are neither an array index nor
  a member of a prototype (the three field names of a dues record). A missing property
  reads as \<^verbatim>\<open>undefined\<close>, here \<open>None\<close>. On \<^verbatim>\<open>null\<close> both throw a TypeError. Writing to
  another primitive does nothing: the script is not in strict mode. Writing to an
  object or an array replaces the property in place or adds it at the end.
\<close>

definition get_prop :: "jsval \<Rightarrow> string \<Rightarrow> exn + jsval option" where
  "get_prop v name = (if v = Null then Inl TypeError else Inr (map_of (own_props v) name))"

definition set_prop :: "jsval \<Rightarrow> string \<Rightarrow> jsval \<Rightarrow> exn + jsval" where
  "set_prop v name x =
     (case v of
        Null \<Rightarrow> Inl TypeError
      | Obj ps \<Rightarrow> Inr (Obj (AList.update name x ps))
      | Arr xs ps \<Rightarrow> Inr (Arr xs (AList.update name x ps))
      | _ \<Rightarrow> Inr v)"

text \<open>\<^verbatim>\<open>a ?? d\<close> and \<^verbatim>\<open>a || d\<close> for a property that was read.\<close>

definition nullish_or :: "jsval option \<Rightarrow> jsval \<Rightarrow> jsval" where
  "nullish_or a d = (case a of None \<Rightarrow> d | Some v \<Rightarrow> if v = Null then d else v)"

definition or_else :: "jsval option \<Rightarrow> jsval \<Rightarrow> jsval" where
  "or_else a d = (case a of None \<Rightarrow> d | Some v \<Rightarrow> if ToBoolean v then v else d)"

definition and_then :: "exn + 'a \<Rightarrow> ('a \<Rightarrow> exn + 'b) \<Rightarrow> exn + 'b" where
  "and_then r f = (case r of Inl e \<Rightarrow> Inl e | Inr x \<Rightarrow> f x)"

text \<open>The three assignments under \<^verbatim>\<open>// Normalize data structure\<close>, in their order.\<close>

definition normalize_dues :: "string \<Rightarrow> jsval \<Rightarrow> exn + jsval" where
  "normalize_dues startMonth data =
     and_then (get_prop data ''monthlyFee'') (\<lambda>fee.
     and_then (ToNumber (nullish_or fee (Num (Fin 2000)))) (\<lambda>n.
     and_then (set_prop data ''monthlyFee'' (Num n)) (\<lambda>data1.
     and_then (get_prop data1 ''startMonth'') (\<lambda>sm.
     and_then (ToString (or_else sm (Str startMonth))) (\<lambda>s.
     and_then (set_prop data1 ''startMonth'' (Str s)) (\<lambda>data2.
     and_then (get_prop data2 ''paymentsByUser'') (\<lambda>pay.
     set_prop data2 ''paymentsByUser'' (or_else pay (Obj [])))))))))"

definition loadDues :: "backend \<Rightarrow> date \<Rightarrow> string \<Rightarrow> jsval outcome" where
  "loadDues b now bid =
     (let startMonth = current_startMonth now
      in case loadFromStorage b (kDues bid) Null (defaultSeed startMonth) of
           (Inl e, b') \<Rightarrow> (Inl e, b')
         | (Inr data, b') \<Rightarrow>
             if \<not> ToBoolean data then (Inr (defaultSeed startMonth), b')
             else (normalize_dues startMonth data, b'))"

definition saveDues :: "backend \<Rightarrow> string \<Rightarrow> jsval \<Rightarrow> bool outcome" where
  "saveDues b bid obj = saveToStorage b (kDues bid) obj"

subsection \<open>Finance items, firms, board posts, forum proposals\<close>

definition kFinanceItems :: "string \<Rightarrow> string" where
  "kFinanceItems bid = ''pu_finance_items_v3__'' @ bid"

definition loadItems :: "backend \<Rightarrow> string \<Rightarrow> jsval \<Rightarrow> jsval outcome" where
  "loadItems b bid seedData = loadFromStorage b (kFinanceItems bid) (Arr [] []) seedData"

definition saveItems :: "backend \<Rightarrow> string \<Rightarrow> jsval \<Rightarrow> bool outcome" where
  "saveItems b bid its = saveToStorage b (kFinanceItems bid) its"

definition kFirms :: "string \<Rightarrow> string" where
  "kFirms bid = ''pu_finance_firms_v3__'' @ bid"

definition loadFirms :: "backend \<Rightarrow> string \<Rightarrow> jsval \<Rightarrow> jsval outcome" where
  "loadFirms b bid seedData = loadFromStorage b (kFirms bid) (Arr [] []) seedData"

definition saveFirms :: "backend \<Rightarrow> string \<Rightarrow> jsval \<Rightarrow> bool outcome" where
  "saveFirms b bid firms = saveToStorage b (kFirms bid) firms"

definition kBoard :: "string \<Rightarrow> string" where
  "kBoard bid = ''pu_board_posts_v2__'' @ bid"

definition loadBoardPosts :: "backend \<Rightarrow> string \<Rightarrow> jsval \<Rightarrow> jsval outcome" where
  "loadBoardPosts b bid seedData = loadFromStorage b (kBoard bid) (Arr [] []) seedData"

definition saveBoardPosts :: "backend \<Rightarrow> string \<Rightarrow> jsval \<Rightarrow> bool outcome" where
  "saveBoardPosts b bid its = saveToStorage b (kBoard bid) its"

definition kForum :: "string \<Rightarrow> string" where
  "kForum bid = ''pu_forum_proposals_v2__'' @ bid"

definition loadProposals :: "backend \<Rightarrow> string \<Rightarrow> jsval \<Rightarrow> jsval outcome" where
  "loadProposals b bid seedData = loadFromStorage b (kForum bid) (Arr [] []) seedData"

definition saveProposals :: "backend \<Rightarrow> string \<Rightarrow> jsval \<Rightarrow> bool outcome" where
  "saveProposals b bid its = saveToStorage b (kForum bid) its"

subsection \<open>Opening balance\<close>

definition kOpeningBalance :: "string \<Rightarrow> string" where
  "kOpeningBalance bid = ''pu_opening_balance__'' @ bid"

text \<open>\<^verbatim>\<open>loadOpeningBalance\<close> has no \<^verbatim>\<open>try\<close>: what \<^verbatim>\<open>setItem\<close> throws leaves the function.\<close>

definition loadOpeningBalance :: "backend \<Rightarrow> string \<Rightarrow> jsnum outcome" where
  "loadOpeningBalance b bid =
     (let raw = getItem b (kOpeningBalance bid)
      in if not_raw raw then
           (let seed = Fin 0
            in case setItem b (kOpeningBalance bid) (Number_toString seed) of
                 Inl e \<Rightarrow> (Inl e, b)
               | Inr b' \<Rightarrow> (Inr seed, b'))
         else
           (let n = StringToNumber (the raw)
            in (Inr (if ToBoolean (Num n) then n else Fin 0), b)))"

definition saveOpeningBalance :: "backend \<Rightarrow> string \<Rightarrow> jsval \<Rightarrow> bool outcome" where
  "saveOpeningBalance b bid val =
     (case and_then (ToNumber (if ToBoolean val then val else Num (Fin 0)))
             (\<lambda>n. setItem b (kOpeningBalance bid) (Number_toString n)) of
        Inr b' \<Rightarrow> (Inr True, b')
      | Inl error \<Rightarrow> (Inr False, console_error b ''Error saving opening balance:'' error))"

subsection \<open>Read tracking\<close>

definition kRead :: "string \<Rightarrow> string \<Rightarrow> string" where
  "kRead bid kind = ''pu_read_'' @ kind @ ''__'' @ bid"

definition loadReadMap :: "backend \<Rightarrow> string \<Rightarrow> string \<Rightarrow> jsval outcome" where
  "loadReadMap b bid kind = loadFromStorage b (kRead bid kind) (Obj []) Null"

definition saveReadMap :: "backend \<Rightarrow> string \<Rightarrow> string \<Rightarrow> jsval \<Rightarrow> bool outcome" where
  "saveReadMap b bid kind m = saveToStorage b (kRead bid kind) m"

section \<open>States and payloads of the examples\<close>

text \<open>A backend that takes every write and one whose quota is used up.\<close>

definition accept_all :: "(string \<rightharpoonup> string) \<Rightarrow> string \<Rightarrow> string \<Rightarrow> bool" where
  "accept_all m k v = True"

definition refuse_all :: "(string \<rightharpoonup> string) \<Rightarrow> string \<Rightarrow> string \<Rightarrow> bool" where
  "refuse_all m k v = False"

definition empty_backend :: backend where
  "empty_backend = \<lparr>items = Map.empty, accepts = accept_all, console = []\<rparr>"

definition full_backend :: backend where
  "full_backend = \<lparr>items = Map.empty, accepts = refuse_all, console = []\<rparr>"

definition holding :: "string \<Rightarrow> string \<Rightarrow> backend" where
  "holding key raw = \<lparr>items = [key \<mapsto> raw], accepts = accept_all, console = []\<rparr>"

definition full_holding :: "string \<Rightarrow> string \<Rightarrow> backend" where
  "full_holding key raw = \<lparr>items = [key \<mapsto> raw], accepts = refuse_all, console = []\<rparr>"

definition january_2026 :: date where
  "january_2026 = \<lparr>getFullYear = 2026, getMonth = 0\<rparr>"

text \<open>The dues record of the spec's example, a dues record with a fee that is no
  number, one with a fee in a string and a start month in a number, and a text that is
  not JSON.\<close>

definition payments_only :: string where
  \<open>payments_only = ''{"paymentsByUser":{"u1":100}}''\<close>

definition fee_abc :: string where
  \<open>fee_abc = ''{"monthlyFee":"abc"}''\<close>

definition fee_1500 :: string where
  \<open>fee_1500 = ''{"monthlyFee":"1500","startMonth":202601}''\<close>

definition not_json :: string where
  \<open>not_json = ''{"monthlyFee":''\<close>


section \<open>The notions of the specification\<close>

text \<open>The invariant of a dues record: a finite fee, a start month that is a string
  and not empty, payments that are a mapping.\<close>

definition dues_invariant :: "jsval \<Rightarrow> bool" where
  "dues_invariant v =
     (case v of
        Obj ps \<Rightarrow>
          (case map_of ps ''monthlyFee'' of Some (Num n) \<Rightarrow> is_finite n | _ \<Rightarrow> False)
          \<and> (case map_of ps ''startMonth'' of Some (Str s) \<Rightarrow> s \<noteq> [] | _ \<Rightarrow> False)
          \<and> (case map_of ps ''paymentsByUser'' of Some (Obj m) \<Rightarrow> True | _ \<Rightarrow> False)
      | _ \<Rightarrow> False)"

text \<open>The primitive values: everything but objects and arrays.\<close>

definition primitive :: "jsval \<Rightarrow> bool" where
  "primitive v = (case v of Arr xs ps \<Rightarrow> False | Obj ps \<Rightarrow> False | _ \<Rightarrow> True)"


text \<open>
  The values that JSON reproduces by their shape: \<^verbatim>\<open>null\<close>, booleans, strings, arrays
  without added properties, objects whose keys are distinct, and the finite numbers
  whose text is a JSON number that reads back as the number itself.
\<close>

definition plain_number :: "jsnum \<Rightarrow> bool" where
  "plain_number n =
     (is_finite n \<and>
      (case Number_toString n of
         [] \<Rightarrow> False
       | c # cs \<Rightarrow> (c = CHR ''-'' \<or> is_digit c) \<and> list_all is_number_char cs
                    \<and> json_number (c # cs) = Some n))"

fun plain :: "jsval \<Rightarrow> bool"
  and plain_elements :: "jsval list \<Rightarrow> bool"
  and plain_members :: "(string \<times> jsval) list \<Rightarrow> bool" where
  "plain Null = True"
| "plain (Bool b) = True"
| "plain (Num n) = plain_number n"
| "plain (BigInt i) = False"
| "plain (Str s) = True"
| "plain (Arr xs ps) = (ps = [] \<and> plain_elements xs)"
| "plain (Obj ps) = (distinct (map fst ps) \<and> plain_members ps)"
| "plain_elements [] = True"
| "plain_elements (x # xs) = (plain x \<and> plain_elements xs)"
| "plain_members [] = True"
| "plain_members (kv # ps) = (plain (snd kv) \<and> plain_members ps)"

section \<open>The tokens of a printed value\<close>




section \<open>The generic adapter, case by case\<close>

lemma JSON_parse_empty: "JSON_parse [] = Inl SyntaxError"
  by (simp add: JSON_parse_def)

lemma items_console_error [simp]: "items (console_error b m e) = items b"
  by (simp add: console_error_def)

lemma accepts_console_error [simp]: "accepts (console_error b m e) = accepts b"
  by (simp add: console_error_def)

lemma load_no_seed:
  "not_raw (getItem b key) \<Longrightarrow> loadFromStorage b key d Null = (Inr d, b)"
  by (simp add: loadFromStorage_def loadFromStorage_try_def)

lemma load_seed_written:
  "not_raw (getItem b key) \<Longrightarrow> s \<noteq> Null \<Longrightarrow> JSON_stringify s = Inr t \<Longrightarrow>
   accepts b (items b) key t \<Longrightarrow>
   loadFromStorage b key d s = (Inr s, b\<lparr>items := (items b)(key \<mapsto> t)\<rparr>)"
  by (simp add: loadFromStorage_def loadFromStorage_try_def setItem_def)

lemma load_seed_refused:
  "not_raw (getItem b key) \<Longrightarrow> s \<noteq> Null \<Longrightarrow> JSON_stringify s = Inr t \<Longrightarrow>
   \<not> accepts b (items b) key t \<Longrightarrow>
   loadFromStorage b key d s
     = (Inr d, console_error b (load_error_message key) QuotaExceededError)"
  by (simp add: loadFromStorage_def loadFromStorage_try_def setItem_def)

lemma load_seed_unserializable:
  "not_raw (getItem b key) \<Longrightarrow> s \<noteq> Null \<Longrightarrow> JSON_stringify s = Inl e \<Longrightarrow>
   loadFromStorage b key d s = (Inr d, console_error b (load_error_message key) e)"
  by (simp add: loadFromStorage_def loadFromStorage_try_def)

lemma load_stored:
  "getItem b key = Some raw \<Longrightarrow> raw \<noteq> [] \<Longrightarrow>
   loadFromStorage b key d s =
     (case JSON_parse raw of
        Inl e \<Rightarrow> (Inr d, console_error b (load_error_message key) e)
      | Inr parsed \<Rightarrow> (Inr (if parsed \<noteq> Null then parsed else d), b))"
  by (simp add: loadFromStorage_def loadFromStorage_try_def not_raw_def split: sum.splits)


lemma stringify_Str_s: "JSON_stringify (Str ''s'') = Inr [CHR 0x22, CHR ''s'', CHR 0x22]"
  by code_simp

section \<open>Dues, numbers and keys: auxiliary facts\<close>

lemma map_of_update_other:
  "k' \<noteq> k \<Longrightarrow> map_of (AList.update k v ps) k' = map_of ps k'"
  by (simp add: AList.update_conv')

lemma current_startMonth_nonempty: "current_startMonth now \<noteq> []"
  by (simp add: current_startMonth_def)

lemma defaultSeed_invariant: "cur \<noteq> [] \<Longrightarrow> dues_invariant (defaultSeed cur)"
  by (simp add: dues_invariant_def defaultSeed_def is_finite_def)

lemma ToBoolean_defaultSeed: "ToBoolean (defaultSeed cur)"
  by (simp add: defaultSeed_def)

lemma normalize_defaultSeed: "normalize_dues cur (defaultSeed cur) = Inr (defaultSeed cur)"
  by (simp add: normalize_dues_def defaultSeed_def and_then_def get_prop_def set_prop_def
      nullish_or_def or_else_def ToNumber_def)

lemma loadDues_stored:
  "getItem b (kDues bid) = Some raw \<Longrightarrow> raw \<noteq> [] \<Longrightarrow>
   loadDues b now bid =
     (case JSON_parse raw of
        Inl e \<Rightarrow> (Inr (defaultSeed (current_startMonth now)),
                  console_error b (load_error_message (kDues bid)) e)
      | Inr data \<Rightarrow>
          if ToBoolean data then (normalize_dues (current_startMonth now) data, b)
          else (Inr (defaultSeed (current_startMonth now)), b))"
  using load_stored [of b "kDues bid" raw Null "defaultSeed (current_startMonth now)"]
  by (auto simp add: loadDues_def Let_def split: sum.splits)

lemma loadDues_not_raw:
  assumes "not_raw (getItem b (kDues bid))"
  shows "fst (loadDues b now bid) = Inr (defaultSeed (current_startMonth now))"
proof (cases "JSON_stringify (defaultSeed (current_startMonth now))")
  case (Inl e)
  from load_seed_unserializable [OF assms _ Inl, of Null] show ?thesis
    by (simp add: loadDues_def Let_def defaultSeed_def)
next
  case (Inr t)
  show ?thesis
  proof (cases "accepts b (items b) (kDues bid) t")
    case True
    from load_seed_written [OF assms _ Inr True, of Null] show ?thesis
      using ToBoolean_defaultSeed normalize_defaultSeed
      by (simp add: loadDues_def Let_def) (simp add: defaultSeed_def)
  next
    case False
    from load_seed_refused [OF assms _ Inr False, of Null] show ?thesis
      by (simp add: loadDues_def Let_def defaultSeed_def)
  qed
qed

lemma parse_payments_only:
  "JSON_parse payments_only = Inr (Obj [(''paymentsByUser'', Obj [(''u1'', Num (Fin 100))])])"
  by code_simp

lemma toString_2026: "Number_toString (Fin 2026) = ''2026''"
  by code_simp

lemma toString_1: "Number_toString (Fin 1) = ''1''"
  by code_simp

lemma january_2026_month: "current_startMonth january_2026 = ''2026-01''"
  by (simp add: current_startMonth_def january_2026_def toString_2026 toString_1 padStart2_def)

lemma parse_fee_abc: "JSON_parse fee_abc = Inr (Obj [(''monthlyFee'', Str ''abc'')])"
  by code_simp

lemma Number_abc: "StringToNumber ''abc'' = NaN"
  by code_simp

lemma parse_not_json: "JSON_parse not_json = Inl SyntaxError"
  by code_simp

lemma parse_null: "JSON_parse ''null'' = Inr Null"
  by code_simp

lemma toString_zero: "Number_toString (Fin 0) = ''0''"
  by (simp add: Number_toString_def)

lemma Number_150_5: "StringToNumber ''150.5'' = Fin (301 / 2)"
  by code_simp

lemma Number_Infinity: "StringToNumber ''Infinity'' = PInf"
  by code_simp

lemma parse_fee_1500:
  "JSON_parse fee_1500 = Inr (Obj [(''monthlyFee'', Str ''1500''), (''startMonth'', Num (Fin 202601))])"
  by code_simp

lemma Number_1500: "StringToNumber ''1500'' = Fin 1500"
  by code_simp

lemma toString_202601: "Number_toString (Fin 202601) = ''202601''"
  by code_simp

lemma complete_Done:
  "complete v stk = Done w \<Longrightarrow> w = v"
  by (cases "(v, stk)" rule: complete.cases) auto

lemma begin_value_Done:
  "begin_value t stk = Some (Done w) \<Longrightarrow> w = Arr xs ps \<Longrightarrow> ps = []"
  by (cases t) (auto dest!: complete_Done)

lemma pstep_Done:
  "pstep st t = Some (Done w) \<Longrightarrow> w = Arr xs ps \<Longrightarrow> ps = []"
  by (cases st) (auto dest!: complete_Done begin_value_Done split: if_splits token.splits)

lemma prun_Done:
  "prun st ts = Some (Done (Arr xs ps)) \<Longrightarrow> ts \<noteq> [] \<Longrightarrow> ps = []"
proof (induction ts arbitrary: st)
  case Nil
  then show ?case by simp
next
  case (Cons t ts)
  from Cons.prems(1) obtain st' where st': "pstep st t = Some st'"
    and run: "prun st' ts = Some (Done (Arr xs ps))"
    by (auto split: option.splits)
  show ?case
  proof (cases "ts = []")
    case True
    with run st' show ?thesis
      using pstep_Done by auto
  next
    case False
    with run show ?thesis by (rule Cons.IH)
  qed
qed

lemma parse_array_bare: "JSON_parse raw = Inr (Arr xs ps) \<Longrightarrow> ps = []"
proof -
  assume a: "JSON_parse raw = Inr (Arr xs ps)"
  then obtain ts where r: "prun (ExpectValue []) ts = Some (Done (Arr xs ps))"
    by (auto simp add: JSON_parse_def split: option.splits pstate.splits)
  then have "ts \<noteq> []" by auto
  with r show ?thesis by (rule prun_Done)
qed

lemma takeWhile_before_underscore:
  "CHR ''_'' \<notin> set k \<Longrightarrow> takeWhile (\<lambda>c. c \<noteq> CHR ''_'') (k @ ''__'' @ b) = k"
  by (induction k) auto

lemma kRead_plain_kind:
  assumes "CHR ''_'' \<notin> set k" and "CHR ''_'' \<notin> set k'" and "kRead b k = kRead b' k'"
  shows "b = b' \<and> k = k'"
proof -
  from assms(3) have eq: "k @ ''__'' @ b = k' @ ''__'' @ b'"
    by (simp add: kRead_def)
  then have "takeWhile (\<lambda>c. c \<noteq> CHR ''_'') (k @ ''__'' @ b)
               = takeWhile (\<lambda>c. c \<noteq> CHR ''_'') (k' @ ''__'' @ b')"
    by simp
  with takeWhile_before_underscore [OF assms(1), of b]
    takeWhile_before_underscore [OF assms(2), of b']
  have "k = k'"
    by simp
  with eq show ?thesis by simp
qed

section \<open>A printed value reads back\<close>

















declare lex.simps(2) [simp del]




lemma map_option_append_append:
  "map_option ((@) xs) (map_option ((@) ys) opt) = map_option ((@) (xs @ ys)) opt"
  by (cases opt) simp_all









lemma prun_object_opened:
  "prun (ObjectOpened stk) (TString k # ts) = prun (ExpectKey [] stk) (TString k # ts)"
  by simp
























section \<open>The claims\<close>

text \<open>
  C1 (seed and default on a key with nothing stored), as the code has it. With nothing
  stored under the key, \<^verbatim>\<open>loadFromStorage(key, d)\<close> returns \<open>d\<close> and leaves the backend
  as it was, so that a later load still finds nothing. With a seed \<open>s\<close> other than
  \<^verbatim>\<open>null\<close> whose text is \<open>t\<close>, and a backend that accepts the write, it stores \<open>t\<close> under
  the key and returns \<open>s\<close>. When the seed cannot be serialised or the backend refuses
  the write, the error is caught and logged on the console with the message of the
  \<^verbatim>\<open>catch\<close> block, \<open>d\<close> is returned and the store is unchanged.
\<close>

theorem loadFromStorage_seed_vs_default:
  assumes "getItem b key = None"
  shows "loadFromStorage b key d Null = (Inr d, b)
       \<and> getItem (snd (loadFromStorage b key d Null)) key = None
       \<and> (s \<noteq> Null \<and> JSON_stringify s = Inr t \<and> accepts b (items b) key t \<longrightarrow>
            loadFromStorage b key d s = (Inr s, b\<lparr>items := (items b)(key \<mapsto> t)\<rparr>))
       \<and> (s \<noteq> Null \<and> (JSON_stringify s = Inl e
                        \<or> JSON_stringify s = Inr t \<and> setItem b key t = Inl e) \<longrightarrow>
            fst (loadFromStorage b key d s) = Inr d
            \<and> items (snd (loadFromStorage b key d s)) = items b
            \<and> getItem (snd (loadFromStorage b key d s)) key = None
            \<and> console (snd (loadFromStorage b key d s))
                 = console b @ [(load_error_message key, e)])"
proof -
  from assms have nr: "not_raw (getItem b key)"
    by (simp add: not_raw_def)
  have 1: "loadFromStorage b key d Null = (Inr d, b)"
    using nr by (rule load_no_seed)
  have 2: "getItem (snd (loadFromStorage b key d Null)) key = None"
    using 1 assms by simp
  have 3: "s \<noteq> Null \<and> JSON_stringify s = Inr t \<and> accepts b (items b) key t \<longrightarrow>
            loadFromStorage b key d s = (Inr s, b\<lparr>items := (items b)(key \<mapsto> t)\<rparr>)"
    using nr by (simp add: load_seed_written)
  have 4: "s \<noteq> Null \<and> (JSON_stringify s = Inl e
                        \<or> JSON_stringify s = Inr t \<and> setItem b key t = Inl e) \<longrightarrow>
            fst (loadFromStorage b key d s) = Inr d
            \<and> items (snd (loadFromStorage b key d s)) = items b
            \<and> getItem (snd (loadFromStorage b key d s)) key = None
            \<and> console (snd (loadFromStorage b key d s))
                 = console b @ [(load_error_message key, e)]"
    using nr assms
    by (auto simp add: loadFromStorage_def loadFromStorage_try_def console_error_def getItem_def
        split: sum.splits)
  from 1 2 3 4 show ?thesis by blast
qed

theorem loadFromStorage_seed_vs_default_witness:
  "loadFromStorage empty_backend ''k'' (Str ''d'') Null = (Inr (Str ''d''), empty_backend)
   \<and> loadFromStorage empty_backend ''k'' (Str ''d'') (Str ''s'')
       = (Inr (Str ''s''), empty_backend\<lparr>items := [''k'' \<mapsto> [CHR 0x22, CHR ''s'', CHR 0x22]]\<rparr>)
   \<and> fst (loadFromStorage full_backend ''k'' (Str ''d'') (Str ''s'')) = Inr (Str ''d'')
   \<and> items (snd (loadFromStorage full_backend ''k'' (Str ''d'') (Str ''s''))) = Map.empty
   \<and> console (snd (loadFromStorage full_backend ''k'' (Str ''d'') (Str ''s'')))
        = [(load_error_message ''k'', QuotaExceededError)]
   \<and> fst (loadFromStorage empty_backend ''k'' (Str ''d'') (BigInt 1)) = Inr (Str ''d'')
   \<and> console (snd (loadFromStorage empty_backend ''k'' (Str ''d'') (BigInt 1)))
        = [(load_error_message ''k'', TypeError)]"
proof -
  have a: "getItem empty_backend ''k'' = None"
    by (simp add: getItem_def empty_backend_def)
  have b: "getItem full_backend ''k'' = None"
    by (simp add: getItem_def full_backend_def)
  have c: "accepts empty_backend (items empty_backend) ''k'' [CHR 0x22, CHR ''s'', CHR 0x22]"
    by (simp add: empty_backend_def accept_all_def)
  have d: "setItem full_backend ''k'' [CHR 0x22, CHR ''s'', CHR 0x22] = Inl QuotaExceededError"
    by (simp add: setItem_def full_backend_def refuse_all_def)
  have e: "JSON_stringify (BigInt 1) = Inl TypeError"
    by simp
  show ?thesis
    using loadFromStorage_seed_vs_default [OF a, where d = "Str ''d''" and s = "Str ''s''"
          and t = "[CHR 0x22, CHR ''s'', CHR 0x22]" and e = SyntaxError]
      loadFromStorage_seed_vs_default [OF b, where d = "Str ''d''" and s = "Str ''s''"
          and t = "[CHR 0x22, CHR ''s'', CHR 0x22]" and e = QuotaExceededError]
      loadFromStorage_seed_vs_default [OF a, where d = "Str ''d''" and s = "BigInt 1"
          and t = "[]" and e = TypeError]
      c d e stringify_Str_s
    by (simp add: empty_backend_def full_backend_def)
qed

text \<open>The claim as it is written fails on a backend whose quota is used up: nothing is
  stored under the key, a seed is supplied, and the call returns the default and
  writes nothing.\<close>

theorem loadFromStorage_seed_refused_counterexample:
  "getItem full_backend ''k'' = None
   \<and> fst (loadFromStorage full_backend ''k'' (Str ''d'') (Str ''s'')) = Inr (Str ''d'')
   \<and> getItem (snd (loadFromStorage full_backend ''k'' (Str ''d'') (Str ''s''))) ''k'' = None"
  using load_seed_refused [of full_backend "''k''" "Str ''s''" "[CHR 0x22, CHR ''s'', CHR 0x22]" "Str ''d''"]
    stringify_Str_s
  by (simp add: full_backend_def refuse_all_def getItem_def not_raw_def)

text \<open>
  C2 (the invariant of a dues record on every read), as the code has it. Let the dues
  key hold a payload.
  \<^item> When the payload is an object and neither conversion throws, \<^verbatim>\<open>loadDues\<close> returns
    that object with the three fields set and the backend as it was: the fee is
    \<^verbatim>\<open>Number(fee ?? 2000)\<close>, the start month is \<^verbatim>\<open>String(month || current)\<close>, the
    payments are \<^verbatim>\<open>payments || {}\<close>, and every other property is as stored. The result
    satisfies the invariant exactly when that number is finite, that string is not empty
    and those payments are an object.
  \<^item> When the payload does not parse, or parses to a falsy value, the result is the
    default record, which satisfies the invariant.
  \<^item> The stored \<^verbatim>\<open>{"paymentsByUser":{"u1":100}}\<close> gives the fee 2000, the current
    year and month, and the stored payments.
  \<^item> When the payload is \<^verbatim>\<open>true\<close>, a number other than zero or a string that is not
    empty, that value itself is returned: the three assignments do nothing to a
    primitive.
  \<^item> When the payload is an array, the array is returned with the three default fields
    added to it as properties.
  A conversion throws for an object that has a property \<^verbatim>\<open>toString\<close> of its own; the
  call then throws, which is the matter of C6.
\<close>

theorem loadDues_invariant:
  assumes "getItem b (kDues bid) = Some raw"
  shows "(JSON_parse raw = Inr (Obj ps)
            \<and> ToNumber (nullish_or (map_of ps ''monthlyFee'') (Num (Fin 2000))) = Inr n
            \<and> ToString (or_else (map_of ps ''startMonth'') (Str (current_startMonth now))) = Inr s \<longrightarrow>
            (\<exists>qs. loadDues b now bid = (Inr (Obj qs), b)
               \<and> map_of qs ''monthlyFee'' = Some (Num n)
               \<and> map_of qs ''startMonth'' = Some (Str s)
               \<and> map_of qs ''paymentsByUser''
                    = Some (or_else (map_of ps ''paymentsByUser'') (Obj []))
               \<and> (\<forall>k. k \<notin> {''monthlyFee'', ''startMonth'', ''paymentsByUser''} \<longrightarrow>
                      map_of qs k = map_of ps k)
               \<and> (dues_invariant (Obj qs) \<longleftrightarrow>
                    is_finite n \<and> s \<noteq> []
                    \<and> (\<exists>m. or_else (map_of ps ''paymentsByUser'') (Obj []) = Obj m))))
       \<and> (JSON_parse raw = Inl e \<or> JSON_parse raw = Inr v \<and> \<not> ToBoolean v \<longrightarrow>
            fst (loadDues b now bid) = Inr (defaultSeed (current_startMonth now))
            \<and> dues_invariant (defaultSeed (current_startMonth now)))
       \<and> (raw = payments_only \<longrightarrow>
            loadDues b now bid =
              (Inr (Obj [(''paymentsByUser'', Obj [(''u1'', Num (Fin 100))]),
                         (''monthlyFee'', Num (Fin 2000)),
                         (''startMonth'', Str (current_startMonth now))]), b))
       \<and> (JSON_parse raw = Inr v \<and> ToBoolean v \<and> primitive v \<longrightarrow>
            loadDues b now bid = (Inr v, b) \<and> \<not> dues_invariant v)
       \<and> (JSON_parse raw = Inr (Arr xs qs) \<longrightarrow>
            loadDues b now bid =
              (Inr (Arr xs [(''monthlyFee'', Num (Fin 2000)),
                            (''startMonth'', Str (current_startMonth now)),
                            (''paymentsByUser'', Obj [])]), b))"
proof (intro conjI impI)
  assume a: "JSON_parse raw = Inr (Obj ps)
            \<and> ToNumber (nullish_or (map_of ps ''monthlyFee'') (Num (Fin 2000))) = Inr n
            \<and> ToString (or_else (map_of ps ''startMonth'') (Str (current_startMonth now))) = Inr s"
  then have ne: "raw \<noteq> []"
    using JSON_parse_empty by auto
  let ?cur = "current_startMonth now"
  let ?p = "or_else (map_of ps ''paymentsByUser'') (Obj [])"
  let ?qs = "AList.update ''paymentsByUser'' ?p
               (AList.update ''startMonth'' (Str s)
                 (AList.update ''monthlyFee'' (Num n) ps))"
  have norm: "normalize_dues ?cur (Obj ps) = Inr (Obj ?qs)"
    using a
    by (simp add: normalize_dues_def and_then_def get_prop_def set_prop_def map_of_update_other)
  have r: "loadDues b now bid = (Inr (Obj ?qs), b)"
    using loadDues_stored [OF assms ne, of now] a norm by simp
  have fee: "map_of ?qs ''monthlyFee'' = Some (Num n)"
    by (simp add: AList.update_conv')
  have month: "map_of ?qs ''startMonth'' = Some (Str s)"
    by (simp add: AList.update_conv')
  have pay: "map_of ?qs ''paymentsByUser'' = Some ?p"
    by (simp add: AList.update_conv')
  have other: "\<forall>k. k \<notin> {''monthlyFee'', ''startMonth'', ''paymentsByUser''} \<longrightarrow>
                 map_of ?qs k = map_of ps k"
    by (simp add: AList.update_conv')
  have inv: "dues_invariant (Obj ?qs) \<longleftrightarrow> is_finite n \<and> s \<noteq> [] \<and> (\<exists>m. ?p = Obj m)"
    unfolding dues_invariant_def jsval.case fee month pay option.case
    by (cases ?p) simp_all
  from r inv fee month pay other
  show "\<exists>qs. loadDues b now bid = (Inr (Obj qs), b)
               \<and> map_of qs ''monthlyFee'' = Some (Num n)
               \<and> map_of qs ''startMonth'' = Some (Str s)
               \<and> map_of qs ''paymentsByUser'' = Some ?p
               \<and> (\<forall>k. k \<notin> {''monthlyFee'', ''startMonth'', ''paymentsByUser''} \<longrightarrow>
                      map_of qs k = map_of ps k)
               \<and> (dues_invariant (Obj qs) \<longleftrightarrow> is_finite n \<and> s \<noteq> [] \<and> (\<exists>m. ?p = Obj m))"
    by blast
next
  assume a: "JSON_parse raw = Inl e \<or> JSON_parse raw = Inr v \<and> \<not> ToBoolean v"
  show "fst (loadDues b now bid) = Inr (defaultSeed (current_startMonth now))"
  proof (cases "raw = []")
    case True
    with assms have "not_raw (getItem b (kDues bid))"
      by (simp add: not_raw_def)
    then show ?thesis by (rule loadDues_not_raw)
  next
    case False
    from loadDues_stored [OF assms False, of now] a show ?thesis
      by auto
  qed
next
  show "dues_invariant (defaultSeed (current_startMonth now))"
    using current_startMonth_nonempty by (rule defaultSeed_invariant)
next
  assume a: "raw = payments_only"
  then have ne: "raw \<noteq> []"
    by (simp add: payments_only_def)
  from loadDues_stored [OF assms ne, of now] a parse_payments_only
  show "loadDues b now bid =
              (Inr (Obj [(''paymentsByUser'', Obj [(''u1'', Num (Fin 100))]),
                         (''monthlyFee'', Num (Fin 2000)),
                         (''startMonth'', Str (current_startMonth now))]), b)"
    by (simp add: normalize_dues_def and_then_def get_prop_def set_prop_def
        nullish_or_def or_else_def ToNumber_def)
next
  assume a: "JSON_parse raw = Inr v \<and> ToBoolean v \<and> primitive v"
  then have ne: "raw \<noteq> []"
    using JSON_parse_empty by auto
  from a have "normalize_dues (current_startMonth now) v = Inr v"
    by (cases v) (simp_all add: primitive_def normalize_dues_def and_then_def get_prop_def
        set_prop_def nullish_or_def or_else_def ToNumber_def)
  with loadDues_stored [OF assms ne, of now] a
  show "loadDues b now bid = (Inr v, b)"
    by simp
next
  assume a: "JSON_parse raw = Inr v \<and> ToBoolean v \<and> primitive v"
  then show "\<not> dues_invariant v"
    by (cases v) (simp_all add: primitive_def dues_invariant_def)
next
  assume a: "JSON_parse raw = Inr (Arr xs qs)"
  then have ne: "raw \<noteq> []"
    using JSON_parse_empty by auto
  from a have qs: "qs = []"
    by (rule parse_array_bare)
  have "normalize_dues (current_startMonth now) (Arr xs [])
          = Inr (Arr xs [(''monthlyFee'', Num (Fin 2000)),
                            (''startMonth'', Str (current_startMonth now)),
                            (''paymentsByUser'', Obj [])])"
    by (simp add: normalize_dues_def and_then_def get_prop_def set_prop_def
        nullish_or_def or_else_def ToNumber_def)
  with loadDues_stored [OF assms ne, of now] a qs
  show "loadDues b now bid =
              (Inr (Arr xs [(''monthlyFee'', Num (Fin 2000)),
                            (''startMonth'', Str (current_startMonth now)),
                            (''paymentsByUser'', Obj [])]), b)"
    by simp
qed

theorem loadDues_invariant_witness:
  "(\<exists>qs. loadDues (holding (kDues ''b1'') fee_1500) january_2026 ''b1''
            = (Inr (Obj qs), holding (kDues ''b1'') fee_1500)
        \<and> dues_invariant (Obj qs)
        \<and> map_of qs ''monthlyFee'' = Some (Num (Fin 1500))
        \<and> map_of qs ''startMonth'' = Some (Str ''202601'')
        \<and> map_of qs ''paymentsByUser'' = Some (Obj []))
   \<and> loadDues (holding (kDues ''b1'') payments_only) january_2026 ''b1''
        = (Inr (Obj [(''paymentsByUser'', Obj [(''u1'', Num (Fin 100))]),
                     (''monthlyFee'', Num (Fin 2000)),
                     (''startMonth'', Str ''2026-01'')]), holding (kDues ''b1'') payments_only)"
proof -
  have g: "getItem (holding (kDues ''b1'') fee_1500) (kDues ''b1'') = Some fee_1500"
    by (simp add: getItem_def holding_def)
  have h: "getItem (holding (kDues ''b1'') payments_only) (kDues ''b1'') = Some payments_only"
    by (simp add: getItem_def holding_def)
  let ?ps = "[(''monthlyFee'', Str ''1500''), (''startMonth'', Num (Fin 202601))]"
  have n: "ToNumber (nullish_or (map_of ?ps ''monthlyFee'') (Num (Fin 2000))) = Inr (Fin 1500)"
    by (simp add: nullish_or_def ToNumber_def Number_1500)
  have s: "ToString (or_else (map_of ?ps ''startMonth'') (Str (current_startMonth january_2026)))
             = Inr ''202601''"
    by (simp add: or_else_def toString_202601)
  have p: "or_else (map_of ?ps ''paymentsByUser'') (Obj []) = Obj []"
    by (simp add: or_else_def)
  from loadDues_invariant [OF g, where ps = ?ps and now = january_2026 and n = "Fin 1500"
      and s = "''202601''"] parse_fee_1500 n s
  have 1: "\<exists>qs. loadDues (holding (kDues ''b1'') fee_1500) january_2026 ''b1''
            = (Inr (Obj qs), holding (kDues ''b1'') fee_1500)
        \<and> dues_invariant (Obj qs)
        \<and> map_of qs ''monthlyFee'' = Some (Num (Fin 1500))
        \<and> map_of qs ''startMonth'' = Some (Str ''202601'')
        \<and> map_of qs ''paymentsByUser'' = Some (Obj [])"
    unfolding p by (simp add: is_finite_def) blast
  from loadDues_invariant [OF h, where now = january_2026] january_2026_month
  have 2: "loadDues (holding (kDues ''b1'') payments_only) january_2026 ''b1''
        = (Inr (Obj [(''paymentsByUser'', Obj [(''u1'', Num (Fin 100))]),
                     (''monthlyFee'', Num (Fin 2000)),
                     (''startMonth'', Str ''2026-01'')]), holding (kDues ''b1'') payments_only)"
    by simp
  from 1 2 show ?thesis by blast
qed

text \<open>The claim as it is written fails on a stored fee that is not numeric:
  \<^verbatim>\<open>Number("abc")\<close> is NaN, which is neither finite nor 2000.\<close>

theorem loadDues_fee_not_numeric_counterexample:
  "fst (loadDues (holding (kDues ''b1'') fee_abc) january_2026 ''b1'')
     = Inr (Obj [(''monthlyFee'', Num NaN), (''startMonth'', Str ''2026-01''),
                 (''paymentsByUser'', Obj [])])
   \<and> \<not> is_finite NaN
   \<and> \<not> dues_invariant (Obj [(''monthlyFee'', Num NaN), (''startMonth'', Str ''2026-01''),
                 (''paymentsByUser'', Obj [])])"
proof -
  have g: "getItem (holding (kDues ''b1'') fee_abc) (kDues ''b1'') = Some fee_abc"
    by (simp add: getItem_def holding_def)
  have ne: "fee_abc \<noteq> []"
    by (simp add: fee_abc_def)
  have n: "normalize_dues ''2026-01'' (Obj [(''monthlyFee'', Str ''abc'')])
             = Inr (Obj [(''monthlyFee'', Num NaN), (''startMonth'', Str ''2026-01''),
                         (''paymentsByUser'', Obj [])])"
    by (simp add: normalize_dues_def and_then_def get_prop_def set_prop_def nullish_or_def
        or_else_def ToNumber_def Number_abc)
  from loadDues_stored [OF g ne, of january_2026] parse_fee_abc n january_2026_month
  show ?thesis
    by (simp add: is_finite_def dues_invariant_def)
qed




text \<open>
  C4 (recovery from a payload that cannot be used). When the payload under the key
  does not parse, or parses to \<^verbatim>\<open>null\<close>, \<^verbatim>\<open>loadFromStorage(key, d)\<close> returns \<open>d\<close> and
  throws nothing; the store is unchanged. A parse error of a payload that is not
  empty is logged on the console and nothing else happens; in the other cases the
  backend is exactly as it was. (\<^verbatim>\<open>JSON.parse\<close> never returns \<^verbatim>\<open>undefined\<close>.)
\<close>

theorem load_failure_recovery:
  assumes "getItem b key = Some raw"
    and "JSON_parse raw = Inl e \<or> JSON_parse raw = Inr Null"
  shows "fst (loadFromStorage b key d Null) = Inr d
       \<and> items (snd (loadFromStorage b key d Null)) = items b
       \<and> (raw \<noteq> [] \<and> JSON_parse raw = Inl e \<longrightarrow>
            snd (loadFromStorage b key d Null) = console_error b (load_error_message key) e)
       \<and> (raw = [] \<or> JSON_parse raw = Inr Null \<longrightarrow> snd (loadFromStorage b key d Null) = b)"
proof (cases "raw = []")
  case True
  with assms(1) have "not_raw (getItem b key)"
    by (simp add: not_raw_def)
  then have "loadFromStorage b key d Null = (Inr d, b)"
    by (rule load_no_seed)
  with True show ?thesis by simp
next
  case False
  from load_stored [OF assms(1) False, of d Null] assms(2) False show ?thesis
    by auto
qed

theorem load_failure_recovery_witness:
  "fst (loadFromStorage (holding ''k'' not_json) ''k'' (Str ''d'') Null) = Inr (Str ''d'')
   \<and> snd (loadFromStorage (holding ''k'' not_json) ''k'' (Str ''d'') Null)
       = console_error (holding ''k'' not_json) (load_error_message ''k'') SyntaxError
   \<and> loadFromStorage (holding ''k'' ''null'') ''k'' (Str ''d'') Null
       = (Inr (Str ''d''), holding ''k'' ''null'')"
proof -
  have a: "getItem (holding ''k'' not_json) ''k'' = Some not_json"
    by (simp add: getItem_def holding_def)
  have b: "getItem (holding ''k'' ''null'') ''k'' = Some ''null''"
    by (simp add: getItem_def holding_def)
  have c: "not_json \<noteq> []"
    by (simp add: not_json_def)
  from load_failure_recovery [OF a, where e = SyntaxError and d = "Str ''d''"]
    load_failure_recovery [OF b, where e = SyntaxError and d = "Str ''d''"]
    parse_not_json parse_null c
  show ?thesis
    by (simp add: prod_eq_iff)
qed

text \<open>
  C5 (a save that fails). \<^verbatim>\<open>saveToStorage\<close> returns \<^verbatim>\<open>true\<close> or \<^verbatim>\<open>false\<close> and throws
  nothing. When the serialisation throws, or the backend refuses the write, it returns
  \<^verbatim>\<open>false\<close>, the store is unchanged, in particular what was or was not stored under the
  key, and the error is logged.
\<close>

theorem save_failure_atomic:
  "(fst (saveToStorage b key v) = Inr True \<or> fst (saveToStorage b key v) = Inr False)
   \<and> (JSON_stringify v = Inl e \<or> JSON_stringify v = Inr t \<and> setItem b key t = Inl e \<longrightarrow>
        fst (saveToStorage b key v) = Inr False
        \<and> items (snd (saveToStorage b key v)) = items b
        \<and> getItem (snd (saveToStorage b key v)) key = getItem b key
        \<and> console (snd (saveToStorage b key v)) = console b @ [(save_error_message key, e)])"
  by (auto simp add: saveToStorage_def getItem_def console_error_def split: sum.splits)

theorem save_failure_atomic_witness:
  "fst (saveToStorage (full_holding ''k'' ''1'') ''k'' (Str ''s'')) = Inr False
   \<and> getItem (snd (saveToStorage (full_holding ''k'' ''1'') ''k'' (Str ''s''))) ''k'' = Some ''1''
   \<and> fst (saveToStorage empty_backend ''k'' (BigInt 10)) = Inr False
   \<and> getItem (snd (saveToStorage empty_backend ''k'' (BigInt 10))) ''k'' = None"
proof -
  have a: "setItem (full_holding ''k'' ''1'') ''k'' [CHR 0x22, CHR ''s'', CHR 0x22]
             = Inl QuotaExceededError"
    by (simp add: setItem_def full_holding_def refuse_all_def)
  have b: "JSON_stringify (BigInt 10) = Inl TypeError"
    by simp
  from save_failure_atomic [where b = "full_holding ''k'' ''1''" and key = "''k''"
      and v = "Str ''s''" and t = "[CHR 0x22, CHR ''s'', CHR 0x22]" and e = QuotaExceededError]
    save_failure_atomic [where b = empty_backend and key = "''k''"
      and v = "BigInt 10" and t = "[]" and e = TypeError]
    a b stringify_Str_s
  show ?thesis
    by (simp add: getItem_def full_holding_def empty_backend_def)
qed

text \<open>
  C6 (no accessor raises) does not hold of \<^verbatim>\<open>loadOpeningBalance\<close>: its first read of a
  tenant writes the seed outside any \<^verbatim>\<open>try\<close>, so on a backend that refuses the write the
  error of \<^verbatim>\<open>setItem\<close> reaches the caller.
\<close>

theorem loadOpeningBalance_raises:
  "getItem full_backend (kOpeningBalance ''b1'') = None
   \<and> fst (loadOpeningBalance full_backend ''b1'') = Inl QuotaExceededError"
  by code_simp

text \<open>
  C7 (the opening balance), as the code has it. With nothing stored for the tenant (or
  the empty string) and a backend that accepts the write, \<^verbatim>\<open>loadOpeningBalance\<close> stores
  \<^verbatim>\<open>0\<close> and returns 0. For a stored string that is not empty it returns \<^verbatim>\<open>Number(raw)\<close>,
  or 0 when that is NaN, and writes nothing: the result is never NaN, and it is finite
  whenever \<^verbatim>\<open>Number(raw)\<close> is not an infinity.
\<close>

theorem loadOpeningBalance_policy:
  "(not_raw (getItem b (kOpeningBalance bid))
      \<and> accepts b (items b) (kOpeningBalance bid) ''0'' \<longrightarrow>
        loadOpeningBalance b bid
          = (Inr (Fin 0), b\<lparr>items := (items b)(kOpeningBalance bid \<mapsto> ''0'')\<rparr>))
   \<and> (getItem b (kOpeningBalance bid) = Some raw \<and> raw \<noteq> [] \<longrightarrow>
        loadOpeningBalance b bid
          = (Inr (if StringToNumber raw = NaN then Fin 0 else StringToNumber raw), b)
        \<and> fst (loadOpeningBalance b bid) \<noteq> Inr NaN
        \<and> (StringToNumber raw \<noteq> PInf \<and> StringToNumber raw \<noteq> NInf \<longrightarrow>
             (\<exists>n. fst (loadOpeningBalance b bid) = Inr n \<and> is_finite n)))"
  by (auto simp add: loadOpeningBalance_def Let_def setItem_def toString_zero not_raw_def
      is_finite_def split: jsnum.splits)

theorem loadOpeningBalance_policy_witness:
  "loadOpeningBalance empty_backend ''b1''
     = (Inr (Fin 0), empty_backend\<lparr>items := [kOpeningBalance ''b1'' \<mapsto> ''0'']\<rparr>)
   \<and> loadOpeningBalance (holding (kOpeningBalance ''b1'') ''150.5'') ''b1''
     = (Inr (Fin (301 / 2)), holding (kOpeningBalance ''b1'') ''150.5'')
   \<and> loadOpeningBalance (holding (kOpeningBalance ''b1'') ''abc'') ''b1''
     = (Inr (Fin 0), holding (kOpeningBalance ''b1'') ''abc'')"
proof -
  have a: "not_raw (getItem empty_backend (kOpeningBalance ''b1''))"
    by (simp add: not_raw_def getItem_def empty_backend_def)
  have b: "accepts empty_backend (items empty_backend) (kOpeningBalance ''b1'') ''0''"
    by (simp add: empty_backend_def accept_all_def)
  have c: "getItem (holding (kOpeningBalance ''b1'') ''150.5'') (kOpeningBalance ''b1'')
             = Some ''150.5''"
    by (simp add: getItem_def holding_def)
  have d: "getItem (holding (kOpeningBalance ''b1'') ''abc'') (kOpeningBalance ''b1'')
             = Some ''abc''"
    by (simp add: getItem_def holding_def)
  from loadOpeningBalance_policy [where b = empty_backend and bid = "''b1''" and raw = "''x''"]
    loadOpeningBalance_policy [where b = "holding (kOpeningBalance ''b1'') ''150.5''"
      and bid = "''b1''" and raw = "''150.5''"]
    loadOpeningBalance_policy [where b = "holding (kOpeningBalance ''b1'') ''abc''"
      and bid = "''b1''" and raw = "''abc''"]
    a b c d Number_150_5 Number_abc
  show ?thesis
    by (simp add: empty_backend_def)
qed

text \<open>The claim as it is written fails on the stored string \<^verbatim>\<open>Infinity\<close>: the result is
  the infinity, which is truthy and so passes \<^verbatim>\<open>|| 0\<close>. \<^verbatim>\<open>saveOpeningBalance\<close> itself
  stores that string when it is given the infinity.\<close>

theorem loadOpeningBalance_infinity_counterexample:
  "fst (loadOpeningBalance (holding (kOpeningBalance ''b1'') ''Infinity'') ''b1'') = Inr PInf
   \<and> \<not> is_finite PInf
   \<and> fst (saveOpeningBalance empty_backend ''b1'' (Num PInf)) = Inr True
   \<and> getItem (snd (saveOpeningBalance empty_backend ''b1'' (Num PInf))) (kOpeningBalance ''b1'')
        = Some ''Infinity''"
proof -
  have "getItem (holding (kOpeningBalance ''b1'') ''Infinity'') (kOpeningBalance ''b1'')
          = Some ''Infinity''"
    by (simp add: getItem_def holding_def)
  then have load: "fst (loadOpeningBalance (holding (kOpeningBalance ''b1'') ''Infinity'') ''b1'')
                     = Inr PInf"
    using Number_Infinity by (simp add: loadOpeningBalance_def Let_def not_raw_def)
  have save: "saveOpeningBalance empty_backend ''b1'' (Num PInf)
                = (Inr True, empty_backend\<lparr>items := [kOpeningBalance ''b1'' \<mapsto> ''Infinity'']\<rparr>)"
    by (simp add: saveOpeningBalance_def and_then_def ToNumber_def Number_toString_def
        setItem_def empty_backend_def accept_all_def)
  from load save show ?thesis
    by (simp add: is_finite_def getItem_def)
qed

text \<open>
  C8 (isolation of the keys), as the code has it. Each builder of one tenant identifier
  is injective. \<^verbatim>\<open>kRead\<close> is injective in the tenant for one kind and in the kind for
  one tenant, and in the pair when the kinds hold no underscore. The keys of the nine
  families are pairwise different, whatever their arguments.
\<close>

theorem key_isolation:
  "(kDues b = kDues b' \<longleftrightarrow> b = b')
   \<and> (kFinanceItems b = kFinanceItems b' \<longleftrightarrow> b = b')
   \<and> (kFirms b = kFirms b' \<longleftrightarrow> b = b')
   \<and> (kBoard b = kBoard b' \<longleftrightarrow> b = b')
   \<and> (kForum b = kForum b' \<longleftrightarrow> b = b')
   \<and> (kOpeningBalance b = kOpeningBalance b' \<longleftrightarrow> b = b')
   \<and> (kRead b k = kRead b' k \<longleftrightarrow> b = b')
   \<and> (kRead b k = kRead b k' \<longleftrightarrow> k = k')
   \<and> (CHR ''_'' \<notin> set k \<and> CHR ''_'' \<notin> set k' \<longrightarrow>
        (kRead b k = kRead b' k' \<longleftrightarrow> b = b' \<and> k = k'))
   \<and> distinct [KEY_BUILDINGS_DB, KEY_USERS_DB, kDues bd, kFinanceItems bi, kFirms bf,
                kBoard bp, kForum bq, kOpeningBalance bo, kRead br kr]"
proof -
  have single: "(kDues b = kDues b' \<longleftrightarrow> b = b')
      \<and> (kFinanceItems b = kFinanceItems b' \<longleftrightarrow> b = b')
      \<and> (kFirms b = kFirms b' \<longleftrightarrow> b = b')
      \<and> (kBoard b = kBoard b' \<longleftrightarrow> b = b')
      \<and> (kForum b = kForum b' \<longleftrightarrow> b = b')
      \<and> (kOpeningBalance b = kOpeningBalance b' \<longleftrightarrow> b = b')"
    by (simp add: kDues_def kFinanceItems_def kFirms_def kBoard_def kForum_def
        kOpeningBalance_def)
  have read: "(kRead b k = kRead b' k \<longleftrightarrow> b = b') \<and> (kRead b k = kRead b k' \<longleftrightarrow> k = k')"
    by (simp add: kRead_def)
  have plain: "CHR ''_'' \<notin> set k \<and> CHR ''_'' \<notin> set k' \<longrightarrow>
        (kRead b k = kRead b' k' \<longleftrightarrow> b = b' \<and> k = k')"
    using kRead_plain_kind [of k k' b b'] by auto
  have families: "distinct [KEY_BUILDINGS_DB, KEY_USERS_DB, kDues bd, kFinanceItems bi, kFirms bf,
                kBoard bp, kForum bq, kOpeningBalance bo, kRead br kr]"
    by (simp add: KEY_BUILDINGS_DB_def KEY_USERS_DB_def kDues_def kFinanceItems_def kFirms_def
        kBoard_def kForum_def kOpeningBalance_def kRead_def)
  from single read plain families show ?thesis
    by (simp only: simp_thms)
qed

theorem key_isolation_witness:
  "kDues ''b1'' \<noteq> kDues ''b2''
   \<and> kRead ''b1'' ''board'' \<noteq> kRead ''b1'' ''forum''
   \<and> kRead ''b1'' ''board'' \<noteq> kRead ''b2'' ''forum''
   \<and> kDues ''b1'' \<noteq> kOpeningBalance ''b1''"
  using key_isolation [where b = "''b1''" and b' = "''b2''" and k = "''board''" and k' = "''forum''"
      and bd = "''b1''" and bo = "''b1''"]
  by simp

text \<open>The claim as it is written fails for \<^verbatim>\<open>kRead\<close> on pairs: the separator can be
  part of a kind or of a tenant identifier.\<close>

theorem kRead_collision_counterexample:
  "(''c'', ''a__b'') \<noteq> (''b__c'', ''a'') \<and> kRead ''c'' ''a__b'' = kRead ''b__c'' ''a''"
  by (simp add: kRead_def)

text \<open>
  C9 (repair at read time only). When the dues key holds a payload that parses,
  \<^verbatim>\<open>loadDues\<close> leaves the backend exactly as it was: no key is written, the dues key
  included, and nothing is logged.
\<close>

theorem loadDues_no_write:
  assumes "getItem b (kDues bid) = Some raw"
    and "JSON_parse raw = Inr v"
  shows "snd (loadDues b now bid) = b"
proof -
  from assms(2) have ne: "raw \<noteq> []"
    using JSON_parse_empty by auto
  from loadDues_stored [OF assms(1) ne, of now] assms(2) show ?thesis
    by simp
qed

theorem loadDues_no_write_witness:
  "snd (loadDues (holding (kDues ''b1'') payments_only) january_2026 ''b1'')
     = holding (kDues ''b1'') payments_only
   \<and> snd (loadDues (holding (kDues ''b1'') fee_abc) january_2026 ''b1'')
     = holding (kDues ''b1'') fee_abc"
proof -
  have a: "getItem (holding (kDues ''b1'') payments_only) (kDues ''b1'') = Some payments_only"
    by (simp add: getItem_def holding_def)
  have b: "getItem (holding (kDues ''b1'') fee_abc) (kDues ''b1'') = Some fee_abc"
    by (simp add: getItem_def holding_def)
  from loadDues_no_write [OF a parse_payments_only] loadDues_no_write [OF b parse_fee_abc]
  show ?thesis by simp
qed

text \<open>
  C10 (a stored empty string is read as an absent key), as the code has it. With the
  empty string under the key, \<^verbatim>\<open>loadFromStorage(key, d)\<close> returns \<open>d\<close> and writes nothing.
  With a seed \<open>s\<close> other than \<^verbatim>\<open>null\<close> and a backend that accepts the write, it replaces
  the empty entry by the text of \<open>s\<close> and returns \<open>s\<close>. When the seed cannot be serialised
  or the backend refuses the write, it returns \<open>d\<close> and the store is unchanged.
\<close>

theorem empty_string_as_absent:
  assumes "getItem b key = Some []"
  shows "loadFromStorage b key d Null = (Inr d, b)
       \<and> (s \<noteq> Null \<and> JSON_stringify s = Inr t \<and> accepts b (items b) key t \<longrightarrow>
            loadFromStorage b key d s = (Inr s, b\<lparr>items := (items b)(key \<mapsto> t)\<rparr>)
            \<and> getItem (snd (loadFromStorage b key d s)) key = Some t)
       \<and> (s \<noteq> Null \<and> (JSON_stringify s = Inl e
                        \<or> JSON_stringify s = Inr t \<and> \<not> accepts b (items b) key t) \<longrightarrow>
            fst (loadFromStorage b key d s) = Inr d
            \<and> items (snd (loadFromStorage b key d s)) = items b)"
proof -
  from assms have nr: "not_raw (getItem b key)"
    by (simp add: not_raw_def)
  have 1: "loadFromStorage b key d Null = (Inr d, b)"
    using nr by (rule load_no_seed)
  have 2: "s \<noteq> Null \<and> JSON_stringify s = Inr t \<and> accepts b (items b) key t \<longrightarrow>
            loadFromStorage b key d s = (Inr s, b\<lparr>items := (items b)(key \<mapsto> t)\<rparr>)
            \<and> getItem (snd (loadFromStorage b key d s)) key = Some t"
    using nr by (simp add: load_seed_written getItem_def)
  have 3: "s \<noteq> Null \<and> (JSON_stringify s = Inl e
                        \<or> JSON_stringify s = Inr t \<and> \<not> accepts b (items b) key t) \<longrightarrow>
            fst (loadFromStorage b key d s) = Inr d
            \<and> items (snd (loadFromStorage b key d s)) = items b"
    using nr by (auto simp add: load_seed_refused load_seed_unserializable)
  from 1 2 3 show ?thesis by blast
qed

theorem empty_string_as_absent_witness:
  "loadFromStorage (holding ''k'' []) ''k'' (Str ''d'') Null = (Inr (Str ''d''), holding ''k'' [])
   \<and> fst (loadFromStorage (holding ''k'' []) ''k'' (Str ''d'') (Str ''s'')) = Inr (Str ''s'')
   \<and> getItem (snd (loadFromStorage (holding ''k'' []) ''k'' (Str ''d'') (Str ''s''))) ''k''
        = Some [CHR 0x22, CHR ''s'', CHR 0x22]"
proof -
  have a: "getItem (holding ''k'' []) ''k'' = Some []"
    by (simp add: getItem_def holding_def)
  have b: "accepts (holding ''k'' []) (items (holding ''k'' [])) ''k'' [CHR 0x22, CHR ''s'', CHR 0x22]"
    by (simp add: holding_def accept_all_def)
  from empty_string_as_absent [OF a, where d = "Str ''d''" and s = "Str ''s''"
      and t = "[CHR 0x22, CHR ''s'', CHR 0x22]" and e = SyntaxError] b stringify_Str_s
  show ?thesis
    by (simp add: getItem_def)
qed

text \<open>The claim as it is written fails on a backend whose quota is used up: the seed
  is supplied, the default is returned and the empty entry stays.\<close>

theorem empty_string_seed_refused_counterexample:
  "getItem (full_holding ''k'' []) ''k'' = Some []
   \<and> fst (loadFromStorage (full_holding ''k'' []) ''k'' (Str ''d'') (Str ''s'')) = Inr (Str ''d'')
   \<and> getItem (snd (loadFromStorage (full_holding ''k'' []) ''k'' (Str ''d'') (Str ''s''))) ''k''
        = Some []"
  using load_seed_refused [of "full_holding ''k'' []" "''k''" "Str ''s''"
      "[CHR 0x22, CHR ''s'', CHR 0x22]" "Str ''d''"] stringify_Str_s
  by (simp add: full_holding_def refuse_all_def getItem_def not_raw_def)

end
